theory Spec2Isabelle
  imports Main
begin

section \<open>Values of the host language\<close>

text \<open>
  A string of the program is a \<^typ>\<open>string\<close>; one \<^typ>\<open>char\<close> stands for one code
  unit, so \<open>length\<close> is the program's \<open>.length\<close> on strings whose code units fit
  in a byte. A string is truthy exactly when it is not empty.

  A \<open>Date\<close> is its time value in milliseconds, \<open>None\<close> being the invalid date.
  The parser behind \<open>new Date(text)\<close> belongs to the platform and is a parameter
  (\<open>parseDate\<close>) of every function that reaches it; the clock behind \<open>new Date()\<close>
  and \<open>Date.now()\<close> is a parameter too (\<open>now\<close>).
\<close>

type_synonym date = "int option"

definition dateOfNumber :: "int \<Rightarrow> date" where
  \<comment> \<open>\<open>new Date(ms)\<close>: a time value beyond 8.64e15 in magnitude is the invalid date.\<close>
  "dateOfNumber ms = (if \<bar>ms\<bar> > 8640000000000000 then None else Some ms)"

definition dateAfter :: "date \<Rightarrow> int \<Rightarrow> bool" where
  \<comment> \<open>\<open>d > new Date()\<close>: compares time values; the invalid date compares false.\<close>
  "dateAfter d now = (case d of None \<Rightarrow> False | Some e \<Rightarrow> now < e)"

section \<open>Credential store (storage.ts)\<close>

text \<open>
  \<open>copilotTokenExpiresAt\<close> is read back either as a string or as a number
  (seconds since the epoch); both are truthy unless empty, respectively zero.
\<close>

datatype expiry = ExpiryString string | ExpiryNumber int

fun truthyExpiry :: "expiry \<Rightarrow> bool" where
  "truthyExpiry (ExpiryString s) = (s \<noteq> [])"
| "truthyExpiry (ExpiryNumber k) = (k \<noteq> 0)"

record TokenStorage =
  githubToken :: "string option"
  copilotToken :: "string option"
  copilotTokenExpiresAt :: "expiry option"

text \<open>
  The token file \<open>token.json\<close>: absent, present but not valid JSON, or present with
  a parsed object. Writing an object and parsing it back gives the same object; file
  operations themselves are taken not to fail.
\<close>

datatype token_file = Missing | Corrupt | Stored TokenStorage

definition saveTokens :: "string \<Rightarrow> string option \<Rightarrow> expiry option \<Rightarrow> token_file \<Rightarrow> token_file" where
  "saveTokens gh ct expiresAt file =
     (let tokenData0 = (case file of
                          Stored existingData \<Rightarrow> existingData
                        | _ \<Rightarrow> \<lparr>githubToken = Some gh, copilotToken = None,
                                copilotTokenExpiresAt = None\<rparr>);
          tokenData1 = tokenData0\<lparr>githubToken := Some gh\<rparr>;
          tokenData2 = (case ct of
                          Some t \<Rightarrow> if t \<noteq> []
                                    then tokenData1\<lparr>copilotToken := Some t,
                                                    copilotTokenExpiresAt := expiresAt\<rparr>
                                    else tokenData1
                        | None \<Rightarrow> tokenData1)
      in Stored tokenData2)"

definition saveToken :: "string \<Rightarrow> token_file \<Rightarrow> token_file" where
  "saveToken t file = saveTokens t None None file"

definition getToken :: "token_file \<Rightarrow> string option" where
  "getToken file =
     (case file of
        Missing \<Rightarrow> None
      | Corrupt \<Rightarrow> None
      | Stored data \<Rightarrow> (case githubToken data of
                          Some t \<Rightarrow> if t \<noteq> [] then Some t else None
                        | None \<Rightarrow> None))"

definition saveCopilotToken :: "string \<Rightarrow> expiry \<Rightarrow> token_file \<Rightarrow> token_file" where
  "saveCopilotToken t expiresAt file =
     (case getToken file of
        Some gh \<Rightarrow> saveTokens gh (Some t) (Some expiresAt) file
      | None \<Rightarrow> file)"

definition getStoredCopilotToken :: "(string \<Rightarrow> date) \<Rightarrow> token_file \<Rightarrow> (string \<times> date) option" where
  \<comment> \<open>\<open>getCopilotToken\<close> of storage.ts, under the name copilot.ts imports it by.\<close>
  "getStoredCopilotToken parseDate file =
     (case file of
        Missing \<Rightarrow> None
      | Corrupt \<Rightarrow> None
      | Stored data \<Rightarrow>
          (case (copilotToken data, copilotTokenExpiresAt data) of
             (Some t, Some x) \<Rightarrow>
               if t \<noteq> [] \<and> truthyExpiry x
               then Some (t, (case x of
                                ExpiryString s \<Rightarrow> parseDate s
                              | ExpiryNumber k \<Rightarrow> dateOfNumber (k * 1000)))
               else None
           | _ \<Rightarrow> None))"

definition clearToken :: "token_file \<Rightarrow> token_file" where
  "clearToken file = Missing"

definition clearCopilotToken :: "token_file \<Rightarrow> token_file" where
  "clearCopilotToken file =
     (case file of
        Stored data \<Rightarrow> Stored (data\<lparr>copilotToken := None, copilotTokenExpiresAt := None\<rparr>)
      | _ \<Rightarrow> file)"

section \<open>HTTP transport\<close>

text \<open>
  What one \<open>fetch\<close> gives: it rejects (with an error message), or it resolves to a
  response with a status, a status text and a body that either is not JSON (reading
  it rejects, with a message) or parses to a value.
\<close>

datatype 'a json_body = InvalidJson string | Json 'a

datatype 'a http_reply = FetchFailed string | Reply nat string "'a json_body"

definition ok :: "nat \<Rightarrow> bool" where
  "ok status = (200 \<le> status \<and> status \<le> 299)"

datatype role = System | User

record Message =
  role :: role
  content :: string

record CopilotRequest =
  intent :: bool
  model :: string
  temperature :: int
  top_p :: int
  n_completions :: int
  stream :: bool
  messages :: "Message list"

text \<open>A call that went out: the URL, the \<open>Authorization\<close> header, and the body of a POST.\<close>

datatype http_call = HttpGet string string | HttpPost string string CopilotRequest

section \<open>Service token broker (copilot.ts)\<close>

datatype token_type = github | copilot

datatype failure = TokenExpiredError string token_type | Error string | NonError

record TokenResponse =
  token :: string
  expires_at :: expiry

definition token_url :: string where
  "token_url = ''https://api.github.com/copilot_internal/v2/token''"

definition tokenFailure :: "nat \<Rightarrow> token_file \<Rightarrow> failure \<times> token_file" where
  \<comment> \<open>The branch \<open>if (!response.ok)\<close> of \<open>getCopilotToken\<close>.\<close>
  "tokenFailure status file =
     (if status = 401 \<or> status = 403
      then (TokenExpiredError ''GitHub access token expired or invalid'' github,
            clearCopilotToken file)
      else if status = 429
      then (Error ''Rate limit exceeded. Please try again later.'', file)
      else if status \<ge> 500
      then (Error ''GitHub service is currently unavailable. Please try again later.'', file)
      else (Error ''Unable to authenticate with GitHub Copilot.'', file))"

definition fetchCopilotToken ::
  "TokenResponse http_reply \<Rightarrow> string \<Rightarrow> token_file
     \<Rightarrow> (failure + string) \<times> token_file \<times> http_call list" where
  \<comment> \<open>\<open>getCopilotToken\<close> from "No valid token in storage, fetch a new one" on.\<close>
  "fetchCopilotToken reply accessToken file =
     (let call = HttpGet token_url (''token '' @ accessToken)
      in case reply of
           FetchFailed msg \<Rightarrow> (Inl (Error msg), file, [call])
         | Reply status statusText body \<Rightarrow>
             if \<not> ok status
             then (case tokenFailure status file of
                     (e, file') \<Rightarrow> (Inl e, file', [call]))
             else (case body of
                     InvalidJson msg \<Rightarrow> (Inl (Error msg), file, [call])
                   | Json data \<Rightarrow>
                       (Inr (token data),
                        saveCopilotToken (token data) (expires_at data) file,
                        [call])))"

definition getCopilotToken ::
  "(string \<Rightarrow> date) \<Rightarrow> int \<Rightarrow> TokenResponse http_reply \<Rightarrow> string \<Rightarrow> token_file
     \<Rightarrow> (failure + string) \<times> token_file \<times> http_call list" where
  "getCopilotToken parseDate now reply accessToken file =
     (case getStoredCopilotToken parseDate file of
        Some (t, expiresAt) \<Rightarrow>
          if dateAfter expiresAt now then (Inr t, file, [])
          else fetchCopilotToken reply accessToken file
      | None \<Rightarrow> fetchCopilotToken reply accessToken file)"

section \<open>Session log (session.ts)\<close>

record SessionEntry =
  timestamp :: int
  prompt :: string
  command :: "string option"
  executed :: "bool option"
  output_text :: "string option"

record SessionData =
  sid :: string
  createdAt :: int
  lastUpdatedAt :: int
  entries :: "SessionEntry list"

text \<open>The sessions directory: one file per session identifier, holding the session written last.\<close>

type_synonym sessions_dir = "string \<rightharpoonup> SessionData"

text \<open>
  Every function that reads the clock takes the readings of \<open>Date.now()\<close> as
  arguments, in the order the code takes them.
\<close>

definition saveSession :: "int \<Rightarrow> SessionData \<Rightarrow> sessions_dir \<Rightarrow> SessionData \<times> sessions_dir" where
  "saveSession now session dir =
     (let session' = session\<lparr>lastUpdatedAt := now\<rparr>
      in (session', dir(sid session' \<mapsto> session')))"

definition addSessionEntry ::
  "int \<Rightarrow> int \<Rightarrow> string \<Rightarrow> string option \<Rightarrow> bool \<Rightarrow> SessionData \<Rightarrow> sessions_dir
     \<Rightarrow> SessionData \<times> sessions_dir" where
  "addSessionEntry now1 now2 p cmd ex session dir =
     (let entry = \<lparr>timestamp = now1, prompt = p, command = cmd, executed = Some ex,
                    output_text = None\<rparr>;
          session1 = session\<lparr>entries := entries session @ [entry]\<rparr>;
          session2 = session1\<lparr>lastUpdatedAt := timestamp entry\<rparr>
      in saveSession now2 session2 dir)"

definition updateLastSessionEntry ::
  "int \<Rightarrow> int \<Rightarrow> string option \<Rightarrow> bool \<Rightarrow> string option \<Rightarrow> SessionData \<Rightarrow> sessions_dir
     \<Rightarrow> SessionData \<times> sessions_dir" where
  "updateLastSessionEntry now1 now2 cmd ex out session dir =
     (if length (entries session) > 0
      then (let lastEntry = last (entries session);
                e1 = (case cmd of Some c \<Rightarrow> lastEntry\<lparr>command := Some c\<rparr> | None \<Rightarrow> lastEntry);
                e2 = e1\<lparr>executed := Some ex\<rparr>;
                e3 = (case out of Some txt \<Rightarrow> e2\<lparr>output_text := Some txt\<rparr> | None \<Rightarrow> e2);
                session1 = session\<lparr>entries := butlast (entries session) @ [e3]\<rparr>;
                session2 = session1\<lparr>lastUpdatedAt := now1\<rparr>
            in saveSession now2 session2 dir)
      else (session, dir))"

definition slice_from :: "int \<Rightarrow> 'a list \<Rightarrow> 'a list" where
  \<comment> \<open>\<open>xs.slice(start)\<close> for an integral \<open>start\<close>: a negative start counts from the end.\<close>
  "slice_from start xs =
     (let len = int (length xs);
          k = (if start < 0 then max (len + start) 0 else min start len)
      in drop (nat k) xs)"

definition digit_char :: "nat \<Rightarrow> char" where
  "digit_char d = ''0123456789'' ! d"

function string_of_nat :: "nat \<Rightarrow> string" where
  "string_of_nat k = (if k < 10 then [digit_char k] else string_of_nat (k div 10) @ [digit_char (k mod 10)])"
  by pat_completeness auto
termination
  by (relation "measure id") auto

definition limitOutput :: "string \<Rightarrow> string" where
  "limitOutput txt =
     (let maxOutputLength = 500
      in if length txt > maxOutputLength
         then take maxOutputLength txt @ ''... [output truncated]''
         else txt)"

definition reindent :: "string \<Rightarrow> string" where
  \<comment> \<open>\<open>.replace(/\n/g, '\n      ')\<close>\<close>
  "reindent txt = concat (map (\<lambda>c. if c = CHR 0x0A then ''\<newline>      '' else [c]) txt)"

definition renderOutput :: "SessionEntry \<Rightarrow> string" where
  "renderOutput entry =
     (case output_text entry of
        Some txt \<Rightarrow> if txt \<noteq> []
                    then ''    Output: '' @ reindent (limitOutput txt) @ ''\<newline>''
                    else []
      | None \<Rightarrow> [])"

definition renderEntry :: "nat \<Rightarrow> SessionEntry \<Rightarrow> string" where
  \<comment> \<open>What one round of the \<open>forEach\<close> in \<open>getSessionContext\<close> appends.\<close>
  "renderEntry index entry =
     ''['' @ string_of_nat (index + 1) @ ''] User: '' @ prompt entry @ ''\<newline>''
     @ (case command entry of
          Some c \<Rightarrow> if c \<noteq> []
                    then ''    Command: '' @ c @ ''\<newline>''
                         @ ''    Executed: '' @ (if executed entry = Some True then ''Yes'' else ''No'')
                         @ ''\<newline>''
                         @ renderOutput entry
                    else []
        | None \<Rightarrow> [])
     @ ''\<newline>''"

definition recentEntries :: "int \<Rightarrow> SessionData \<Rightarrow> SessionEntry list" where
  "recentEntries limit session = slice_from (- limit) (entries session)"

definition getSessionContext :: "int \<Rightarrow> SessionData \<Rightarrow> string" where
  "getSessionContext limit session =
     foldl (\<lambda>context (index, entry). context @ renderEntry index entry)
       ''Previous commands:\<newline>\<newline>''
       (zip [0 ..< length (recentEntries limit session)] (recentEntries limit session))"

section \<open>Suggestion service (copilot.ts)\<close>

text \<open>
  A completion response: the contents of the messages of its choices, in order.
\<close>

record CopilotResponse =
  choices :: "string list"

definition completion_url :: string where
  "completion_url = ''https://api.githubcopilot.com/chat/completions''"

definition isWhiteSpace :: "char \<Rightarrow> bool" where
  \<comment> \<open>The white space and line terminators that fit in a byte.\<close>
  "isWhiteSpace c = (c \<in> set [CHR 0x09, CHR 0x0A, CHR 0x0B, CHR 0x0C, CHR 0x0D, CHR 0x20, CHR 0xA0])"

definition trim :: "string \<Rightarrow> string" where
  "trim s = rev (dropWhile isWhiteSpace (rev (dropWhile isWhiteSpace s)))"

fun includes_str :: "string \<Rightarrow> string \<Rightarrow> bool" where
  \<comment> \<open>\<open>s.includes(part)\<close>\<close>
  "includes_str [] part = (part = [])"
| "includes_str (c # cs) part = (take (length part) (c # cs) = part \<or> includes_str cs part)"

definition completionFailure :: "nat \<Rightarrow> token_file \<Rightarrow> failure \<times> token_file" where
  \<comment> \<open>The branch \<open>if (!response.ok)\<close> of \<open>getCommandSuggestion\<close>.\<close>
  "completionFailure status file =
     (if status = 401 \<or> status = 403
      then (TokenExpiredError ''Copilot token expired or invalid'' copilot,
            clearCopilotToken file)
      else if status = 429
      then (Error ''You have reached your Copilot usage limit. Please try again later.'', file)
      else if status \<ge> 500
      then (Error ''GitHub Copilot service is currently unavailable. Please try again later.'', file)
      else if status = 400
      then (Error ''Invalid request to Copilot. Please try a different prompt.'', file)
      else (Error ''Unable to get a response from GitHub Copilot.'', file))"

definition composeMessages :: "string \<Rightarrow> string option \<Rightarrow> Message list" where
  \<comment> \<open>The \<open>messages\<close> array as \<open>getCommandSuggestion\<close> fills it.\<close>
  "composeMessages p sessionContext =
     (let messages0 = [];
          messages1 =
            (case sessionContext of
               Some c \<Rightarrow>
                 if c \<noteq> []
                 then messages0 @
                      [\<lparr>role = System,
                        content = c @ ''\<newline>\<newline>You are a command-line assistant. Generate accurate terminal commands based on user requests. Consider the context of previous commands when applicable.''\<rparr>]
                 else messages0
             | None \<Rightarrow> messages0)
      in messages1 @
         [\<lparr>role = User,
           content = ''Generate a terminal command for: '' @ p
                     @ ''\<newline>Provide only the command, no explanation.''\<rparr>])"

definition suggestionAttempt ::
  "(string \<Rightarrow> date) \<Rightarrow> int \<Rightarrow> TokenResponse http_reply \<Rightarrow> CopilotResponse http_reply
     \<Rightarrow> string \<Rightarrow> string \<Rightarrow> string option \<Rightarrow> token_file
     \<Rightarrow> (failure + string) \<times> token_file \<times> http_call list" where
  \<comment> \<open>The \<open>try\<close> block of \<open>getCommandSuggestion\<close>.\<close>
  "suggestionAttempt parseDate now tokenReply completionReply p accessToken sessionContext file =
     (case getCopilotToken parseDate now tokenReply accessToken file of
        (Inl e, file1, calls1) \<Rightarrow> (Inl e, file1, calls1)
      | (Inr tok, file1, calls1) \<Rightarrow>
          (let request = \<lparr>intent = False, model = ''claude-3.5-sonnet'', temperature = 0,
                          top_p = 1, n_completions = 1, stream = False,
                          messages = composeMessages p sessionContext\<rparr>;
               calls2 = calls1 @ [HttpPost completion_url (''Bearer '' @ tok) request]
           in case completionReply of
                FetchFailed msg \<Rightarrow> (Inl (Error msg), file1, calls2)
              | Reply status statusText body \<Rightarrow>
                  if \<not> ok status
                  then (case completionFailure status file1 of
                          (e, file2) \<Rightarrow> (Inl e, file2, calls2))
                  else (case body of
                          InvalidJson msg \<Rightarrow> (Inl (Error msg), file1, calls2)
                        | Json data \<Rightarrow>
                            (case choices data of
                               [] \<Rightarrow> (Inl (Error ''No command suggestion received''), file1, calls2)
                             | c # _ \<Rightarrow>
                                 (let suggestion = trim c
                                  in if suggestion = []
                                     then (Inl (Error ''No command suggestion received''), file1, calls2)
                                     else (Inr suggestion, file1, calls2))))))"

definition translateError :: "failure \<Rightarrow> failure" where
  \<comment> \<open>The \<open>catch\<close> block of \<open>getCommandSuggestion\<close>: what it throws for what it caught.\<close>
  "translateError error =
     (case error of
        TokenExpiredError msg tt \<Rightarrow> TokenExpiredError msg tt
      | Error msg \<Rightarrow>
          if includes_str msg ''fetch''
          then Error ''Network error: Unable to connect to GitHub Copilot. Please check your internet connection.''
          else if includes_str msg ''Copilot API error''
          then Error ''GitHub Copilot service error. Please try again in a few moments.''
          else if includes_str msg ''No command suggestion''
          then Error ''Copilot was unable to generate a command for your request. Please try rephrasing.''
          else Error ''Unable to get command suggestion from GitHub Copilot. Please try again.''
      | NonError \<Rightarrow> Error ''An unexpected error occurred. Please try again.'')"

definition getCommandSuggestion ::
  "(string \<Rightarrow> date) \<Rightarrow> int \<Rightarrow> TokenResponse http_reply \<Rightarrow> CopilotResponse http_reply
     \<Rightarrow> string \<Rightarrow> string \<Rightarrow> string option \<Rightarrow> token_file
     \<Rightarrow> (failure + string) \<times> token_file \<times> http_call list" where
  "getCommandSuggestion parseDate now tokenReply completionReply p accessToken sessionContext file =
     (case suggestionAttempt parseDate now tokenReply completionReply p accessToken
             sessionContext file of
        (Inl error, file', calls) \<Rightarrow> (Inl (translateError error), file', calls)
      | (Inr suggestion, file', calls) \<Rightarrow> (Inr suggestion, file', calls))"

section \<open>Identity authenticator (auth.ts)\<close>

record AccessTokenResponse =
  access_token :: "string option"

text \<open>What the polling loop does, in order: a token-exchange call, a logged error, a wait in milliseconds.\<close>

datatype poll_event = Requested string | Logged string | Waited int

datatype attempt = Returned string | Caught string | NoToken

definition pollAttempt :: "AccessTokenResponse http_reply \<Rightarrow> attempt" where
  \<comment> \<open>One round of the \<open>try\<close> block, up to the \<open>return\<close>, the \<open>throw\<close> or the wait.\<close>
  "pollAttempt reply =
     (case reply of
        FetchFailed msg \<Rightarrow> Caught msg
      | Reply status statusText body \<Rightarrow>
          if \<not> ok status then Caught (''Failed to get token: '' @ statusText)
          else (case body of
                  InvalidJson msg \<Rightarrow> Caught msg
                | Json data \<Rightarrow>
                    (case access_token data of
                       Some t \<Rightarrow> if t \<noteq> [] then Returned t else NoToken
                     | None \<Rightarrow> NoToken)))"

text \<open>
  The loop \<open>while (true)\<close>: \<open>replies k\<close> is what the \<open>k\<close>-th call gets; the
  events so far are carried along. The value \<open>None\<close> is the loop that never returns.
\<close>

partial_function (option) pollLoop ::
  "string \<Rightarrow> int \<Rightarrow> (nat \<Rightarrow> AccessTokenResponse http_reply) \<Rightarrow> nat \<Rightarrow> poll_event list
     \<Rightarrow> (string \<times> poll_event list) option" where
  "pollLoop deviceCode pollInterval replies k trace =
     (case pollAttempt (replies k) of
        Returned t \<Rightarrow> Some (t, trace @ [Requested deviceCode])
      | Caught msg \<Rightarrow>
          pollLoop deviceCode pollInterval replies (Suc k)
            (trace @ [Requested deviceCode, Logged msg, Waited pollInterval])
      | NoToken \<Rightarrow>
          pollLoop deviceCode pollInterval replies (Suc k)
            (trace @ [Requested deviceCode, Waited pollInterval]))"

definition pollForToken ::
  "string \<Rightarrow> int \<Rightarrow> (nat \<Rightarrow> AccessTokenResponse http_reply) \<Rightarrow> (string \<times> poll_event list) option" where
  "pollForToken deviceCode interval replies =
     (let pollInterval = interval * 1000
      in pollLoop deviceCode pollInterval replies 0 [])"

section \<open>Sequences of session calls\<close>

text \<open>
  A call on the session log with the clock readings it takes, and a run of such calls
  threading the session and the sessions directory through.
\<close>

datatype session_call =
    Append int int string "string option" bool
  | UpdateLast int int "string option" bool "string option"

fun applyCall :: "session_call \<Rightarrow> SessionData \<times> sessions_dir \<Rightarrow> SessionData \<times> sessions_dir" where
  "applyCall (Append now1 now2 p cmd ex) (session, dir) = addSessionEntry now1 now2 p cmd ex session dir"
| "applyCall (UpdateLast now1 now2 cmd ex out) (session, dir)
     = updateLastSessionEntry now1 now2 cmd ex out session dir"

fun runCalls :: "session_call list \<Rightarrow> SessionData \<times> sessions_dir \<Rightarrow> SessionData \<times> sessions_dir" where
  "runCalls [] st = st"
| "runCalls (c # cs) st = runCalls cs (applyCall c st)"

fun clockReadings :: "session_call \<Rightarrow> int list" where
  "clockReadings (Append now1 now2 p cmd ex) = [now1, now2]"
| "clockReadings (UpdateLast now1 now2 cmd ex out) = [now1, now2]"

definition timestampsOrdered :: "SessionData \<Rightarrow> bool" where
  "timestampsOrdered session =
     (sorted (map timestamp (entries session))
      \<and> (entries session = [] \<or> timestamp (last (entries session)) \<le> lastUpdatedAt session))"

text \<open>The events of a round of the polling loop that does not return.\<close>

definition failedRound :: "string \<Rightarrow> int \<Rightarrow> AccessTokenResponse http_reply \<Rightarrow> poll_event list" where
  "failedRound deviceCode pollInterval reply =
     (case pollAttempt reply of
        Returned t \<Rightarrow> []
      | Caught msg \<Rightarrow> [Requested deviceCode, Logged msg, Waited pollInterval]
      | NoToken \<Rightarrow> [Requested deviceCode, Waited pollInterval])"

section \<open>Concrete inputs\<close>

text \<open>
  The platform values and the states the instances below are evaluated with: a date
  parser that knows one ISO timestamp, a sessions directory with no file, a token file
  with both tokens, a session as \<open>createSession\<close> leaves it, a session with two
  entries, and a server that answers three polls without a token and the fourth with one.
\<close>

definition sampleParseDate :: "string \<Rightarrow> date" where
  "sampleParseDate s = (if s = ''2023-11-14T22:28:20.000Z'' then Some 1700000900000 else None)"

definition noSessions :: sessions_dir where
  "noSessions = Map.empty"

definition sampleStore :: token_file where
  "sampleStore = Stored \<lparr>githubToken = Some ''gho_a'', copilotToken = Some ''tid=1'',
                          copilotTokenExpiresAt = Some (ExpiryNumber 1700000900)\<rparr>"

definition newSession :: SessionData where
  "newSession = \<lparr>sid = ''s-0'', createdAt = 900, lastUpdatedAt = 900, entries = []\<rparr>"

definition sampleSession :: SessionData where
  "sampleSession =
     \<lparr>sid = ''s-1'', createdAt = 900, lastUpdatedAt = 2000,
      entries = [\<lparr>timestamp = 1000, prompt = ''list files'', command = Some ''ls -la'',
                  executed = Some True, output_text = Some ''file1\<newline>file2''\<rparr>,
                 \<lparr>timestamp = 2000, prompt = ''show date'', command = None,
                  executed = Some False, output_text = None\<rparr>]\<rparr>"

definition sampleReplies :: "nat \<Rightarrow> AccessTokenResponse http_reply" where
  "sampleReplies k =
     (if k < 3 then Reply 200 ''OK'' (Json \<lparr>access_token = None\<rparr>)
      else if k = 3 then Reply 200 ''OK'' (Json \<lparr>access_token = Some ''gho_fourth''\<rparr>)
      else Reply 200 ''OK'' (Json \<lparr>access_token = Some ''gho_later''\<rparr>))"

section \<open>The service token cache\<close>

lemma fetchCopilotToken_calls:
  "snd (snd (fetchCopilotToken reply accessToken file))
     = [HttpGet token_url (''token '' @ accessToken)]"
  by (simp add: fetchCopilotToken_def Let_def split: http_reply.split json_body.split prod.split)

lemma sampleStore_read:
  "getStoredCopilotToken sampleParseDate sampleStore = Some (''tid=1'', Some 1700000900000)"
  by (simp add: getStoredCopilotToken_def sampleStore_def dateOfNumber_def)

text \<open>
  C1. When the store reads back a service token whose expiry is strictly later than the
  clock, \<open>getCopilotToken\<close> returns that token, leaves the store as it is and makes no
  HTTP call; in every other case it makes exactly one call, a GET of the token URL
  authorised by the identity token.
\<close>

theorem getCopilotToken_cache_or_one_call:
  "(getStoredCopilotToken parseDate file = Some (t, Some e) \<and> now < e
      \<longrightarrow> getCopilotToken parseDate now reply accessToken file = (Inr t, file, []))
   \<and> (\<not> (\<exists>t e. getStoredCopilotToken parseDate file = Some (t, Some e) \<and> now < e)
      \<longrightarrow> snd (snd (getCopilotToken parseDate now reply accessToken file))
            = [HttpGet token_url (''token '' @ accessToken)])"
  by (auto simp: getCopilotToken_def dateAfter_def fetchCopilotToken_calls
           split: option.splits prod.splits)

theorem getCopilotToken_cache_or_one_call_witness:
  "getCopilotToken sampleParseDate 1700000000000 (FetchFailed ''offline'') ''gho_a'' sampleStore
     = (Inr ''tid=1'', sampleStore, [])
   \<and> snd (snd (getCopilotToken sampleParseDate 1700000900000 (FetchFailed ''offline'')
                 ''gho_a'' sampleStore))
     = [HttpGet token_url ''token gho_a'']"
proof -
  have hit: "getStoredCopilotToken sampleParseDate sampleStore
               = Some (''tid=1'', Some 1700000900000)
             \<and> (1700000000000::int) < 1700000900000"
    using sampleStore_read by simp
  have miss: "\<not> (\<exists>t e. getStoredCopilotToken sampleParseDate sampleStore = Some (t, Some e)
                        \<and> (1700000900000::int) < e)"
    using sampleStore_read by simp
  from getCopilotToken_cache_or_one_call
         [of sampleParseDate sampleStore "''tid=1''" 1700000900000 1700000000000
             "FetchFailed ''offline''" "''gho_a''"] hit
  have c1: "getCopilotToken sampleParseDate 1700000000000 (FetchFailed ''offline'') ''gho_a''
              sampleStore = (Inr ''tid=1'', sampleStore, [])"
    by blast
  from getCopilotToken_cache_or_one_call
         [of sampleParseDate sampleStore "''tid=1''" 1700000900000 1700000900000
             "FetchFailed ''offline''" "''gho_a''"] miss
  have c2: "snd (snd (getCopilotToken sampleParseDate 1700000900000 (FetchFailed ''offline'')
                       ''gho_a'' sampleStore))
            = [HttpGet token_url (''token '' @ ''gho_a'')]"
    by blast
  show ?thesis using c1 c2 by simp
qed

lemma getStored_after_clear:
  "getStoredCopilotToken parseDate (clearCopilotToken file) = None"
  by (simp add: getStoredCopilotToken_def clearCopilotToken_def split: token_file.split)

lemma getCopilotToken_uncached:
  "\<not> (\<exists>t e. getStoredCopilotToken parseDate file = Some (t, Some e) \<and> now < e)
   \<Longrightarrow> getCopilotToken parseDate now reply accessToken file = fetchCopilotToken reply accessToken file"
  by (auto simp: getCopilotToken_def dateAfter_def split: option.splits prod.splits)

lemma clearCopilotToken_slots:
  "clearCopilotToken (Stored b) = Stored (b\<lparr>copilotToken := None, copilotTokenExpiresAt := None\<rparr>)
   \<and> clearCopilotToken Missing = Missing
   \<and> clearCopilotToken Corrupt = Corrupt"
  by (simp add: clearCopilotToken_def)

text \<open>
  C2. When the token endpoint answers with a status outside 200..299 (the store holding
  no unexpired token, so that the call is made), \<open>getCopilotToken\<close> makes that one
  call and no other, and fails by status: 401 or 403 clears the service token and its
  expiry from the store and raises \<open>TokenExpiredError\<close> of type \<open>github\<close>; 429 raises
  the rate-limit error; 500 and above the service-unavailable error; any other status
  the generic authentication error, the store staying as it was in these three cases.
  After a 401 or 403 a parsed token file is the old one with the slots
  \<open>copilotToken\<close> and \<open>copilotTokenExpiresAt\<close> removed and the identity token kept,
  and a missing or unreadable file is left alone; either way the store reads back no
  service token, so the next call, whatever the clock says, returns no cached token
  and goes to the endpoint again.
\<close>

theorem getCopilotToken_failure_classes:
  assumes uncached: "\<not> (\<exists>t e. getStoredCopilotToken parseDate file = Some (t, Some e) \<and> now < e)"
      and failed: "\<not> ok status"
  shows "getCopilotToken parseDate now (Reply status statusText body) accessToken file
           = (if status = 401 \<or> status = 403
              then (Inl (TokenExpiredError ''GitHub access token expired or invalid'' github),
                    clearCopilotToken file, [HttpGet token_url (''token '' @ accessToken)])
              else if status = 429
              then (Inl (Error ''Rate limit exceeded. Please try again later.''),
                    file, [HttpGet token_url (''token '' @ accessToken)])
              else if status \<ge> 500
              then (Inl (Error ''GitHub service is currently unavailable. Please try again later.''),
                    file, [HttpGet token_url (''token '' @ accessToken)])
              else (Inl (Error ''Unable to authenticate with GitHub Copilot.''),
                    file, [HttpGet token_url (''token '' @ accessToken)]))
         \<and> (status = 401 \<or> status = 403 \<longrightarrow>
              getStoredCopilotToken parseDate' (clearCopilotToken file) = None
              \<and> getCopilotToken parseDate' now' reply' accessToken' (clearCopilotToken file)
                  = fetchCopilotToken reply' accessToken' (clearCopilotToken file)
              \<and> snd (snd (getCopilotToken parseDate' now' reply' accessToken' (clearCopilotToken file)))
                  = [HttpGet token_url (''token '' @ accessToken')])
         \<and> (status = 401 \<or> status = 403 \<longrightarrow>
              (case fst (snd (getCopilotToken parseDate now (Reply status statusText body)
                                accessToken file)) of
                 Stored b' \<Rightarrow>
                   copilotToken b' = None \<and> copilotTokenExpiresAt b' = None
                   \<and> (case file of
                         Stored b \<Rightarrow> githubToken b' = githubToken b
                                      \<and> b' = b\<lparr>copilotToken := None,
                                               copilotTokenExpiresAt := None\<rparr>
                       | _ \<Rightarrow> False)
               | Missing \<Rightarrow> file = Missing
               | Corrupt \<Rightarrow> file = Corrupt))"
proof -
  have first: "getCopilotToken parseDate now (Reply status statusText body) accessToken file
                 = fetchCopilotToken (Reply status statusText body) accessToken file"
    using uncached by (rule getCopilotToken_uncached)
  have again: "getCopilotToken parseDate' now' reply' accessToken' (clearCopilotToken file)
                 = fetchCopilotToken reply' accessToken' (clearCopilotToken file)"
    by (rule getCopilotToken_uncached) (simp add: getStored_after_clear)
  have classes: "fetchCopilotToken (Reply status statusText body) accessToken file
           = (if status = 401 \<or> status = 403
              then (Inl (TokenExpiredError ''GitHub access token expired or invalid'' github),
                    clearCopilotToken file, [HttpGet token_url (''token '' @ accessToken)])
              else if status = 429
              then (Inl (Error ''Rate limit exceeded. Please try again later.''),
                    file, [HttpGet token_url (''token '' @ accessToken)])
              else if status \<ge> 500
              then (Inl (Error ''GitHub service is currently unavailable. Please try again later.''),
                    file, [HttpGet token_url (''token '' @ accessToken)])
              else (Inl (Error ''Unable to authenticate with GitHub Copilot.''),
                    file, [HttpGet token_url (''token '' @ accessToken)]))"
    using failed by (simp add: fetchCopilotToken_def tokenFailure_def Let_def)
  have calls: "snd (snd (getCopilotToken parseDate' now' reply' accessToken' (clearCopilotToken file)))
                  = [HttpGet token_url (''token '' @ accessToken')]"
    unfolding again by (rule fetchCopilotToken_calls)
  have slots: "(case clearCopilotToken file of
                 Stored b' \<Rightarrow>
                   copilotToken b' = None \<and> copilotTokenExpiresAt b' = None
                   \<and> (case file of
                         Stored b \<Rightarrow> githubToken b' = githubToken b
                                      \<and> b' = b\<lparr>copilotToken := None,
                                               copilotTokenExpiresAt := None\<rparr>
                       | _ \<Rightarrow> False)
               | Missing \<Rightarrow> file = Missing
               | Corrupt \<Rightarrow> file = Corrupt)"
    by (cases "file") (simp_all add: clearCopilotToken_slots)
  have cleared: "fst (snd (getCopilotToken parseDate now (Reply status statusText body)
                             accessToken file)) = clearCopilotToken file"
    if "status = 401 \<or> status = 403"
    unfolding first classes using that by auto
  have part1: "getCopilotToken parseDate now (Reply status statusText body) accessToken file
           = (if status = 401 \<or> status = 403
              then (Inl (TokenExpiredError ''GitHub access token expired or invalid'' github),
                    clearCopilotToken file, [HttpGet token_url (''token '' @ accessToken)])
              else if status = 429
              then (Inl (Error ''Rate limit exceeded. Please try again later.''),
                    file, [HttpGet token_url (''token '' @ accessToken)])
              else if status \<ge> 500
              then (Inl (Error ''GitHub service is currently unavailable. Please try again later.''),
                    file, [HttpGet token_url (''token '' @ accessToken)])
              else (Inl (Error ''Unable to authenticate with GitHub Copilot.''),
                    file, [HttpGet token_url (''token '' @ accessToken)]))"
    unfolding first classes ..
  have part3: "(case fst (snd (getCopilotToken parseDate now (Reply status statusText body)
                                accessToken file)) of
                 Stored b' \<Rightarrow>
                   copilotToken b' = None \<and> copilotTokenExpiresAt b' = None
                   \<and> (case file of
                         Stored b \<Rightarrow> githubToken b' = githubToken b
                                      \<and> b' = b\<lparr>copilotToken := None,
                                               copilotTokenExpiresAt := None\<rparr>
                       | _ \<Rightarrow> False)
               | Missing \<Rightarrow> file = Missing
               | Corrupt \<Rightarrow> file = Corrupt)"
    if "status = 401 \<or> status = 403"
    unfolding cleared [OF that] by (rule slots)
  show ?thesis
    using part1 again calls getStored_after_clear part3 by blast
qed

theorem getCopilotToken_failure_classes_witness:
  "getCopilotToken sampleParseDate 1700000900000 (Reply 403 ''Forbidden'' (InvalidJson ''Forbidden''))
      ''gho_a'' sampleStore
     = (Inl (TokenExpiredError ''GitHub access token expired or invalid'' github),
        Stored \<lparr>githubToken = Some ''gho_a'', copilotToken = None,
                copilotTokenExpiresAt = None\<rparr>,
        [HttpGet token_url ''token gho_a''])
   \<and> getStoredCopilotToken sampleParseDate
        (Stored \<lparr>githubToken = Some ''gho_a'', copilotToken = None,
                 copilotTokenExpiresAt = None\<rparr>) = None
   \<and> snd (snd (getCopilotToken sampleParseDate 1700000000000 (FetchFailed ''offline'') ''gho_a''
                 (Stored \<lparr>githubToken = Some ''gho_a'', copilotToken = None,
                          copilotTokenExpiresAt = None\<rparr>)))
     = [HttpGet token_url ''token gho_a'']"
proof -
  have miss: "\<not> (\<exists>t e. getStoredCopilotToken sampleParseDate sampleStore = Some (t, Some e)
                        \<and> (1700000900000::int) < e)"
    using sampleStore_read by simp
  have bad: "\<not> ok 403" by (simp add: ok_def)
  have c: "clearCopilotToken sampleStore
             = Stored \<lparr>githubToken = Some ''gho_a'', copilotToken = None,
                       copilotTokenExpiresAt = None\<rparr>"
    by (simp add: clearCopilotToken_def sampleStore_def)
  show ?thesis
    using getCopilotToken_failure_classes
            [OF miss bad, where statusText = "''Forbidden''" and body = "InvalidJson ''Forbidden''"
                and accessToken = "''gho_a''" and parseDate' = sampleParseDate
                and now' = 1700000000000 and reply' = "FetchFailed ''offline''"
                and accessToken' = "''gho_a''"]
    unfolding c by (simp add: fetchCopilotToken_calls)
qed

section \<open>Persisting a refreshed token\<close>

lemma getToken_Some:
  "getToken file = Some gh \<longleftrightarrow> (\<exists>b. file = Stored b \<and> githubToken b = Some gh \<and> gh \<noteq> [])"
  by (auto simp: getToken_def split: token_file.splits option.splits if_splits)

lemma saveCopilotToken_Stored:
  "getToken (Stored b) = Some gh \<Longrightarrow> t \<noteq> [] \<Longrightarrow>
     saveCopilotToken t y (Stored b)
       = Stored (b\<lparr>copilotToken := Some t, copilotTokenExpiresAt := Some y\<rparr>)"
proof -
  assume g: "getToken (Stored b) = Some gh" and t: "t \<noteq> []"
  from g have "githubToken b = Some gh" by (simp add: getToken_Some)
  then show ?thesis
    using g t by (simp add: saveCopilotToken_def saveTokens_def Let_def)
qed

lemma saveCopilotToken_skip:
  "getToken file = None \<or> t = [] \<Longrightarrow> saveCopilotToken t y file = file"
proof (cases "getToken file")
  case None
  then show ?thesis by (simp add: saveCopilotToken_def)
next
  case (Some gh)
  assume "getToken file = None \<or> t = []"
  with Some have "t = []" by simp
  moreover from Some obtain b where "file = Stored b" "githubToken b = Some gh"
    by (auto simp: getToken_Some)
  ultimately show ?thesis
    using Some by (simp add: saveCopilotToken_def saveTokens_def Let_def)
qed

text \<open>
  A successful refresh that persists nothing: with no token file, hence no stored
  identity token, the refreshed token is returned and the store still holds no service
  token.
\<close>

theorem getCopilotToken_success_not_persisted:
  "getCopilotToken sampleParseDate 1700000000000
      (Reply 200 ''OK'' (Json \<lparr>token = ''tid=2'', expires_at = ExpiryNumber 1700001800\<rparr>))
      ''gho_a'' Missing
     = (Inr ''tid=2'', Missing, [HttpGet token_url ''token gho_a''])
   \<and> getStoredCopilotToken sampleParseDate Missing = None"
  by (simp add: getCopilotToken_def fetchCopilotToken_def getStoredCopilotToken_def ok_def
                saveCopilotToken_def getToken_def Let_def)

text \<open>
  C7, as it holds on the code. When the refresh call succeeds, the token of the response is returned.
  It is written to the store together with its expiry, a string or a number of seconds
  as received, when the store holds a non-empty identity token and the returned token
  is not empty; the store then reads the token back, with the expiry as a date, unless
  the expiry is falsy. When the store holds no identity token, or the returned token is
  empty, the store is left as it was.
\<close>

theorem getCopilotToken_success_persists:
  assumes uncached: "\<not> (\<exists>t e. getStoredCopilotToken parseDate file = Some (t, Some e) \<and> now < e)"
      and success: "ok status"
  shows "fst (getCopilotToken parseDate now (Reply status statusText (Json data)) accessToken file)
           = Inr (token data)
         \<and> (getToken file \<noteq> None \<and> token data \<noteq> [] \<longrightarrow>
              (case fst (snd (getCopilotToken parseDate now (Reply status statusText (Json data))
                                accessToken file)) of
                 Stored b' \<Rightarrow> copilotToken b' = Some (token data)
                              \<and> copilotTokenExpiresAt b' = Some (expires_at data)
                              \<and> githubToken b' = getToken file
               | _ \<Rightarrow> False)
              \<and> getStoredCopilotToken parseDate'
                    (fst (snd (getCopilotToken parseDate now (Reply status statusText (Json data))
                                 accessToken file)))
                  = (if truthyExpiry (expires_at data)
                     then Some (token data,
                                (case expires_at data of
                                   ExpiryString s \<Rightarrow> parseDate' s
                                 | ExpiryNumber k \<Rightarrow> dateOfNumber (k * 1000)))
                     else None))
         \<and> (getToken file = None \<or> token data = [] \<longrightarrow>
              fst (snd (getCopilotToken parseDate now (Reply status statusText (Json data))
                          accessToken file)) = file)"
proof -
  have run: "getCopilotToken parseDate now (Reply status statusText (Json data)) accessToken file
               = (Inr (token data), saveCopilotToken (token data) (expires_at data) file,
                  [HttpGet token_url (''token '' @ accessToken)])"
    using success
    by (simp add: getCopilotToken_uncached [OF uncached] fetchCopilotToken_def Let_def)
  have kept: "(case saveCopilotToken (token data) (expires_at data) file of
                   Stored b' \<Rightarrow> copilotToken b' = Some (token data)
                                \<and> copilotTokenExpiresAt b' = Some (expires_at data)
                                \<and> githubToken b' = getToken file
                 | _ \<Rightarrow> False)
                \<and> getStoredCopilotToken parseDate'
                      (saveCopilotToken (token data) (expires_at data) file)
                    = (if truthyExpiry (expires_at data)
                       then Some (token data,
                                  (case expires_at data of
                                     ExpiryString s \<Rightarrow> parseDate' s
                                   | ExpiryNumber k \<Rightarrow> dateOfNumber (k * 1000)))
                       else None)"
    if "getToken file \<noteq> None \<and> token data \<noteq> []"
  proof -
    from that obtain gh where g: "getToken file = Some gh" and t: "token data \<noteq> []"
      by auto
    then obtain b where f: "file = Stored b" and b: "githubToken b = Some gh"
      by (auto simp: getToken_Some)
    show ?thesis
      using g t b
      by (simp add: f saveCopilotToken_Stored getStoredCopilotToken_def)
  qed
  have skipped: "saveCopilotToken (token data) (expires_at data) file = file"
    if "getToken file = None \<or> token data = []"
    using that by (rule saveCopilotToken_skip)
  show ?thesis
    unfolding run using kept skipped by simp
qed

theorem getCopilotToken_success_persists_witness:
  "fst (getCopilotToken sampleParseDate 1700000900000
          (Reply 200 ''OK'' (Json \<lparr>token = ''tid=2'', expires_at = ExpiryNumber 1700001800\<rparr>))
          ''gho_a'' sampleStore) = Inr ''tid=2''
   \<and> getStoredCopilotToken sampleParseDate
        (fst (snd (getCopilotToken sampleParseDate 1700000900000
          (Reply 200 ''OK'' (Json \<lparr>token = ''tid=2'', expires_at = ExpiryNumber 1700001800\<rparr>))
          ''gho_a'' sampleStore)))
      = Some (''tid=2'', Some 1700001800000)
   \<and> fst (snd (getCopilotToken sampleParseDate 1700000900000
          (Reply 200 ''OK'' (Json \<lparr>token = [], expires_at = ExpiryNumber 1700001800\<rparr>))
          ''gho_a'' sampleStore)) = sampleStore"
proof -
  have miss: "\<not> (\<exists>t e. getStoredCopilotToken sampleParseDate sampleStore = Some (t, Some e)
                        \<and> (1700000900000::int) < e)"
    using sampleStore_read by simp
  have good: "ok 200" by (simp add: ok_def)
  have gh: "getToken sampleStore = Some ''gho_a''"
    by (simp add: getToken_def sampleStore_def)
  note a = getCopilotToken_success_persists
            [OF miss good, where statusText = "''OK''"
                and data = "\<lparr>token = ''tid=2'', expires_at = ExpiryNumber 1700001800\<rparr>"
                and accessToken = "''gho_a''" and parseDate' = sampleParseDate]
  note b = getCopilotToken_success_persists
            [OF miss good, where statusText = "''OK''"
                and data = "\<lparr>token = [], expires_at = ExpiryNumber 1700001800\<rparr>"
                and accessToken = "''gho_a''" and parseDate' = sampleParseDate]
  show ?thesis using a b gh by (simp add: dateOfNumber_def)
qed

text \<open>
  C8. Writes keep the slots they are not about. Saving an identity token alone (no
  service token given, or an empty one) keeps the stored service token and its expiry;
  saving a refreshed service token keeps the identity token, and writes nothing when
  there is no identity token to keep; clearing the service token keeps the identity
  token.
\<close>

theorem store_writes_keep_other_slots:
  "(case saveTokens gh None x (Stored b) of
      Stored b' \<Rightarrow> copilotToken b' = copilotToken b
                   \<and> copilotTokenExpiresAt b' = copilotTokenExpiresAt b
                   \<and> githubToken b' = Some gh
    | _ \<Rightarrow> False)
   \<and> saveTokens gh (Some []) x (Stored b) = saveTokens gh None x (Stored b)
   \<and> saveToken gh (Stored b) = saveTokens gh None None (Stored b)
   \<and> (case saveCopilotToken t y (Stored b) of
        Stored b' \<Rightarrow> githubToken b' = githubToken b
      | _ \<Rightarrow> False)
   \<and> saveCopilotToken t y Missing = Missing
   \<and> saveCopilotToken t y Corrupt = Corrupt
   \<and> getToken (saveCopilotToken t y file) = getToken file
   \<and> (case clearCopilotToken (Stored b) of
        Stored b' \<Rightarrow> githubToken b' = githubToken b
      | _ \<Rightarrow> False)"
proof -
  have a: "getToken (saveCopilotToken t y file) = getToken file"
  proof (cases "getToken file")
    case None
    then show ?thesis by (simp add: saveCopilotToken_def)
  next
    case (Some g)
    then obtain c where "file = Stored c" "githubToken c = Some g" "g \<noteq> []"
      by (auto simp: getToken_Some)
    then show ?thesis
      using Some by (simp add: saveCopilotToken_def saveTokens_def Let_def getToken_def)
  qed
  have b: "(case saveCopilotToken t y (Stored b) of
        Stored b' \<Rightarrow> githubToken b' = githubToken b
      | _ \<Rightarrow> False)"
  proof (cases "getToken (Stored b)")
    case None
    then show ?thesis by (simp add: saveCopilotToken_def)
  next
    case (Some g)
    then have "githubToken b = Some g"
      by (auto simp: getToken_Some)
    then show ?thesis
      using Some by (simp add: saveCopilotToken_def saveTokens_def Let_def)
  qed
  have c: "saveCopilotToken t y Missing = Missing" "saveCopilotToken t y Corrupt = Corrupt"
    by (simp_all add: saveCopilotToken_def getToken_def)
  show ?thesis
    using a b c
    by (simp add: saveTokens_def saveToken_def Let_def clearCopilotToken_def)
qed

section \<open>The completion request and its failures\<close>

lemma getCopilotToken_calls_are_gets:
  "c \<in> set (snd (snd (getCopilotToken parseDate now reply accessToken file)))
     \<Longrightarrow> c = HttpGet token_url (''token '' @ accessToken)"
proof (cases "\<exists>t e. getStoredCopilotToken parseDate file = Some (t, Some e) \<and> now < e")
  case True
  then obtain t e where "getStoredCopilotToken parseDate file = Some (t, Some e) \<and> now < e"
    by blast
  then have "getCopilotToken parseDate now reply accessToken file = (Inr t, file, [])"
    by (simp add: getCopilotToken_def dateAfter_def)
  moreover assume "c \<in> set (snd (snd (getCopilotToken parseDate now reply accessToken file)))"
  ultimately show ?thesis by simp
next
  case False
  then have "snd (snd (getCopilotToken parseDate now reply accessToken file))
               = [HttpGet token_url (''token '' @ accessToken)]"
    by (simp add: getCopilotToken_uncached fetchCopilotToken_calls)
  moreover assume "c \<in> set (snd (snd (getCopilotToken parseDate now reply accessToken file)))"
  ultimately show ?thesis by simp
qed

lemma suggestionAttempt_calls:
  "snd (snd (suggestionAttempt parseDate now tokenReply completionReply p accessToken
               sessionContext file))
     = (case getCopilotToken parseDate now tokenReply accessToken file of
          (Inl e, file1, calls1) \<Rightarrow> calls1
        | (Inr tok, file1, calls1) \<Rightarrow>
            calls1 @ [HttpPost completion_url (''Bearer '' @ tok)
                        \<lparr>intent = False, model = ''claude-3.5-sonnet'', temperature = 0,
                         top_p = 1, n_completions = 1, stream = False,
                         messages = composeMessages p sessionContext\<rparr>])"
  by (simp add: suggestionAttempt_def Let_def
           split: prod.split sum.split http_reply.split json_body.split list.split)

lemma getCommandSuggestion_calls:
  "snd (snd (getCommandSuggestion parseDate now tokenReply completionReply p accessToken
               sessionContext file))
     = snd (snd (suggestionAttempt parseDate now tokenReply completionReply p accessToken
               sessionContext file))"
  by (simp add: getCommandSuggestion_def split: prod.split sum.split)

lemma sampleStore_hit:
  "getCopilotToken sampleParseDate 1700000000000 tokenReply ''gho_a'' sampleStore
     = (Inr ''tid=1'', sampleStore, [])"
  using sampleStore_read by (simp add: getCopilotToken_def dateAfter_def)

text \<open>
  C9. Once the service token is obtained, \<open>getCommandSuggestion\<close> makes exactly one
  completion call, a POST after the calls of the token broker (which are GETs of the
  token URL), authorised by that token, whatever the completion endpoint then answers.
  Its request carries at most two messages: a system message with the session context
  in front exactly when a context was passed and is not empty, then exactly one user
  message holding the prompt. When no service token is obtained, no completion call is
  made. So every completion call in the call list carries these messages.
\<close>

theorem getCommandSuggestion_messages:
  "(fst (getCopilotToken parseDate now tokenReply accessToken file) = Inr tok \<longrightarrow>
      snd (snd (getCommandSuggestion parseDate now tokenReply completionReply
                  p accessToken sessionContext file))
        = snd (snd (getCopilotToken parseDate now tokenReply accessToken file))
          @ [HttpPost completion_url (''Bearer '' @ tok)
               \<lparr>intent = False, model = ''claude-3.5-sonnet'', temperature = 0,
                top_p = 1, n_completions = 1, stream = False,
                messages =
                  (case sessionContext of
                     Some c \<Rightarrow>
                       if c \<noteq> []
                       then [\<lparr>role = System,
                              content = c @ ''\<newline>\<newline>You are a command-line assistant. Generate accurate terminal commands based on user requests. Consider the context of previous commands when applicable.''\<rparr>]
                       else []
                   | None \<Rightarrow> [])
                  @ [\<lparr>role = User,
                       content = ''Generate a terminal command for: '' @ p
                                 @ ''\<newline>Provide only the command, no explanation.''\<rparr>]\<rparr>])
   \<and> (fst (getCopilotToken parseDate now tokenReply accessToken file) = Inl e \<longrightarrow>
      snd (snd (getCommandSuggestion parseDate now tokenReply completionReply
                  p accessToken sessionContext file))
        = snd (snd (getCopilotToken parseDate now tokenReply accessToken file)))
   \<and> (call \<in> set (snd (snd (getCopilotToken parseDate now tokenReply accessToken file))) \<longrightarrow>
      call = HttpGet token_url (''token '' @ accessToken))
   \<and> (HttpPost url auth request
         \<in> set (snd (snd (getCommandSuggestion parseDate now tokenReply completionReply
                            p accessToken sessionContext file))) \<longrightarrow>
      messages request
           = (case sessionContext of
                Some c \<Rightarrow>
                  if c \<noteq> []
                  then [\<lparr>role = System,
                         content = c @ ''\<newline>\<newline>You are a command-line assistant. Generate accurate terminal commands based on user requests. Consider the context of previous commands when applicable.''\<rparr>]
                  else []
              | None \<Rightarrow> [])
             @ [\<lparr>role = User,
                  content = ''Generate a terminal command for: '' @ p
                            @ ''\<newline>Provide only the command, no explanation.''\<rparr>]
         \<and> length (messages request) \<le> 2
         \<and> length (filter (\<lambda>m. role m = User) (messages request)) = 1
         \<and> role (last (messages request)) = User
         \<and> (length (filter (\<lambda>m. role m = System) (messages request)) = 1
              \<longleftrightarrow> (\<exists>c. sessionContext = Some c \<and> c \<noteq> []))
         \<and> (length (filter (\<lambda>m. role m = System) (messages request)) = 0
              \<longleftrightarrow> sessionContext = None \<or> sessionContext = Some []))"
proof -
  let ?calls = "snd (snd (getCommandSuggestion parseDate now tokenReply completionReply
                            p accessToken sessionContext file))"
  obtain r file1 calls1 where g: "getCopilotToken parseDate now tokenReply accessToken file
                                    = (r, file1, calls1)"
    by (cases "getCopilotToken parseDate now tokenReply accessToken file") auto
  have composed: "composeMessages p sessionContext
           = (case sessionContext of
                Some c \<Rightarrow>
                  if c \<noteq> []
                  then [\<lparr>role = System,
                         content = c @ ''\<newline>\<newline>You are a command-line assistant. Generate accurate terminal commands based on user requests. Consider the context of previous commands when applicable.''\<rparr>]
                  else []
              | None \<Rightarrow> [])
             @ [\<lparr>role = User,
                  content = ''Generate a terminal command for: '' @ p
                            @ ''\<newline>Provide only the command, no explanation.''\<rparr>]"
    by (cases sessionContext) (simp_all add: composeMessages_def)
  have posted: "?calls = calls1 @ [HttpPost completion_url (''Bearer '' @ tok)
               \<lparr>intent = False, model = ''claude-3.5-sonnet'', temperature = 0,
                top_p = 1, n_completions = 1, stream = False,
                messages = composeMessages p sessionContext\<rparr>]"
    if "r = Inr tok"
    unfolding getCommandSuggestion_calls suggestionAttempt_calls g using that by simp
  have silent: "?calls = calls1" if "r = Inl e"
    unfolding getCommandSuggestion_calls suggestionAttempt_calls g using that by simp
  have gets: "call = HttpGet token_url (''token '' @ accessToken)" if "call \<in> set calls1" for call
    using getCopilotToken_calls_are_gets
            [of call parseDate now tokenReply accessToken "file"] g that
    by simp
  have shape: "messages request = composeMessages p sessionContext"
    if sent: "HttpPost url auth request \<in> set ?calls"
  proof (cases r)
    case (Inl e')
    then have "?calls = calls1"
      unfolding getCommandSuggestion_calls suggestionAttempt_calls g by simp
    with sent gets [of "HttpPost url auth request"] show ?thesis by simp
  next
    case (Inr t)
    then have "?calls = calls1 @ [HttpPost completion_url (''Bearer '' @ t)
               \<lparr>intent = False, model = ''claude-3.5-sonnet'', temperature = 0,
                top_p = 1, n_completions = 1, stream = False,
                messages = composeMessages p sessionContext\<rparr>]"
      unfolding getCommandSuggestion_calls suggestionAttempt_calls g by simp
    with sent gets [of "HttpPost url auth request"] show ?thesis by auto
  qed
  have props: "length (messages request) \<le> 2
         \<and> length (filter (\<lambda>m. role m = User) (messages request)) = 1
         \<and> role (last (messages request)) = User
         \<and> (length (filter (\<lambda>m. role m = System) (messages request)) = 1
              \<longleftrightarrow> (\<exists>c. sessionContext = Some c \<and> c \<noteq> []))
         \<and> (length (filter (\<lambda>m. role m = System) (messages request)) = 0
              \<longleftrightarrow> sessionContext = None \<or> sessionContext = Some [])"
    if "messages request = composeMessages p sessionContext"
    unfolding that by (cases sessionContext) (auto simp: composeMessages_def)
  show ?thesis
    using posted silent gets [of call] shape props unfolding g composed
    by simp
qed

theorem getCommandSuggestion_messages_witness:
  "snd (snd (getCommandSuggestion sampleParseDate 1700000000000 (FetchFailed ''offline'')
               (Reply 200 ''OK'' (Json \<lparr>choices = ['' ls -la '']\<rparr>))
               ''list files'' ''gho_a'' (Some []) sampleStore))
     = [HttpPost completion_url ''Bearer tid=1''
          \<lparr>intent = False, model = ''claude-3.5-sonnet'', temperature = 0,
           top_p = 1, n_completions = 1, stream = False,
           messages =
             [\<lparr>role = User,
               content = ''Generate a terminal command for: list files\<newline>Provide only the command, no explanation.''\<rparr>]\<rparr>]
   \<and> snd (snd (getCommandSuggestion sampleParseDate 1700000000000 (FetchFailed ''offline'')
               (Reply 500 ''Internal Server Error'' (InvalidJson ''Internal Server Error''))
               ''list files'' ''gho_a'' (Some ''Previous commands:'') sampleStore))
     = [HttpPost completion_url ''Bearer tid=1''
          \<lparr>intent = False, model = ''claude-3.5-sonnet'', temperature = 0,
           top_p = 1, n_completions = 1, stream = False,
           messages =
             [\<lparr>role = System,
               content = ''Previous commands:\<newline>\<newline>You are a command-line assistant. Generate accurate terminal commands based on user requests. Consider the context of previous commands when applicable.''\<rparr>,
              \<lparr>role = User,
               content = ''Generate a terminal command for: list files\<newline>Provide only the command, no explanation.''\<rparr>]\<rparr>]"
proof -
  have got: "fst (getCopilotToken sampleParseDate 1700000000000 (FetchFailed ''offline'')
                    ''gho_a'' sampleStore) = Inr ''tid=1''"
    by (simp add: sampleStore_hit)
  have none: "snd (snd (getCopilotToken sampleParseDate 1700000000000 (FetchFailed ''offline'')
                          ''gho_a'' sampleStore)) = []"
    by (simp add: sampleStore_hit)
  note a = getCommandSuggestion_messages
             [where parseDate = sampleParseDate and now = 1700000000000
                and tokenReply = "FetchFailed ''offline''" and accessToken = "''gho_a''"
                and ?file = sampleStore and tok = "''tid=1''" and p = "''list files''"
                and sessionContext = "Some []"
                and completionReply = "Reply 200 ''OK'' (Json \<lparr>choices = ['' ls -la '']\<rparr>)"]
  note b = getCommandSuggestion_messages
             [where parseDate = sampleParseDate and now = 1700000000000
                and tokenReply = "FetchFailed ''offline''" and accessToken = "''gho_a''"
                and ?file = sampleStore and tok = "''tid=1''" and p = "''list files''"
                and sessionContext = "Some ''Previous commands:''"
                and completionReply = "Reply 500 ''Internal Server Error'' (InvalidJson ''Internal Server Error'')"]
  from a got none
  have c1: "snd (snd (getCommandSuggestion sampleParseDate 1700000000000 (FetchFailed ''offline'')
               (Reply 200 ''OK'' (Json \<lparr>choices = ['' ls -la '']\<rparr>))
               ''list files'' ''gho_a'' (Some []) sampleStore))
     = [HttpPost completion_url (''Bearer '' @ ''tid=1'')
          \<lparr>intent = False, model = ''claude-3.5-sonnet'', temperature = 0,
           top_p = 1, n_completions = 1, stream = False,
           messages =
             [\<lparr>role = User,
               content = ''Generate a terminal command for: '' @ ''list files''
                         @ ''\<newline>Provide only the command, no explanation.''\<rparr>]\<rparr>]"
    by simp
  from b got none
  have c2: "snd (snd (getCommandSuggestion sampleParseDate 1700000000000 (FetchFailed ''offline'')
               (Reply 500 ''Internal Server Error'' (InvalidJson ''Internal Server Error''))
               ''list files'' ''gho_a'' (Some ''Previous commands:'') sampleStore))
     = [HttpPost completion_url (''Bearer '' @ ''tid=1'')
          \<lparr>intent = False, model = ''claude-3.5-sonnet'', temperature = 0,
           top_p = 1, n_completions = 1, stream = False,
           messages =
             [\<lparr>role = System,
               content = ''Previous commands:'' @ ''\<newline>\<newline>You are a command-line assistant. Generate accurate terminal commands based on user requests. Consider the context of previous commands when applicable.''\<rparr>,
              \<lparr>role = User,
               content = ''Generate a terminal command for: '' @ ''list files''
                         @ ''\<newline>Provide only the command, no explanation.''\<rparr>]\<rparr>]"
    by simp
  show ?thesis using c1 c2 by simp
qed

lemma translate_invalid_request:
  "translateError (Error ''Invalid request to Copilot. Please try a different prompt.'')
     = Error ''Unable to get command suggestion from GitHub Copilot. Please try again.''"
  by (simp add: translateError_def)

lemma translate_no_response:
  "translateError (Error ''Unable to get a response from GitHub Copilot.'')
     = Error ''Unable to get command suggestion from GitHub Copilot. Please try again.''"
  by (simp add: translateError_def)

lemma translate_usage_limit:
  "translateError (Error ''You have reached your Copilot usage limit. Please try again later.'')
     = Error ''Unable to get command suggestion from GitHub Copilot. Please try again.''"
  by (simp add: translateError_def)

lemma translate_unavailable:
  "translateError (Error ''GitHub Copilot service is currently unavailable. Please try again later.'')
     = Error ''Unable to get command suggestion from GitHub Copilot. Please try again.''"
  by (simp add: translateError_def)

text \<open>
  Once a service token is obtained: a 401 or 403 from the completion endpoint clears
  the service token from the store and surfaces as \<open>TokenExpiredError\<close> of type
  \<open>copilot\<close>, which the \<open>catch\<close> block passes on unchanged; every other failing
  status surfaces with one and the same message.
\<close>

lemma getCommandSuggestion_auth_failure:
  assumes got: "getCopilotToken parseDate now tokenReply accessToken file = (Inr t, file1, calls1)"
      and auth: "status = 401 \<or> status = 403"
  shows "getCommandSuggestion parseDate now tokenReply (Reply status statusText body)
           p accessToken sessionContext file
           = (Inl (TokenExpiredError ''Copilot token expired or invalid'' copilot),
              clearCopilotToken file1,
              calls1 @ [HttpPost completion_url (''Bearer '' @ t)
                 \<lparr>intent = False, model = ''claude-3.5-sonnet'', temperature = 0,
                  top_p = 1, n_completions = 1, stream = False,
                  messages = composeMessages p sessionContext\<rparr>])
         \<and> getStoredCopilotToken parseDate' (clearCopilotToken file1) = None"
proof -
  have bad: "\<not> ok status" using auth by (auto simp: ok_def)
  show ?thesis
    using auth bad
    by (auto simp: getCommandSuggestion_def suggestionAttempt_def got completionFailure_def
                   translateError_def getStored_after_clear)
qed

lemma getCommandSuggestion_other_failures_generic:
  assumes got: "getCopilotToken parseDate now tokenReply accessToken file = (Inr t, file1, calls1)"
      and bad: "\<not> ok status" and other: "status \<noteq> 401" "status \<noteq> 403"
  shows "fst (getCommandSuggestion parseDate now tokenReply (Reply status statusText body)
           p accessToken sessionContext file)
           = Inl (Error ''Unable to get command suggestion from GitHub Copilot. Please try again.'')"
  using bad other
  by (simp add: getCommandSuggestion_def suggestionAttempt_def got completionFailure_def
                translate_invalid_request translate_no_response translate_usage_limit
                translate_unavailable)

text \<open>
  C3. At status 400 the \<open>try\<close> block raises the invalid-request error, but the
  \<open>catch\<close> block replaces it: what \<open>getCommandSuggestion\<close> raises is the generic
  message, the same as for a 404.
\<close>

theorem getCommandSuggestion_400_generic:
  "fst (suggestionAttempt sampleParseDate 1700000000000 (FetchFailed ''offline'')
          (Reply 400 ''Bad Request'' (InvalidJson ''Bad Request''))
          ''list files'' ''gho_a'' None sampleStore)
     = Inl (Error ''Invalid request to Copilot. Please try a different prompt.'')
   \<and> fst (getCommandSuggestion sampleParseDate 1700000000000 (FetchFailed ''offline'')
          (Reply 400 ''Bad Request'' (InvalidJson ''Bad Request''))
          ''list files'' ''gho_a'' None sampleStore)
     = Inl (Error ''Unable to get command suggestion from GitHub Copilot. Please try again.'')
   \<and> fst (getCommandSuggestion sampleParseDate 1700000000000 (FetchFailed ''offline'')
          (Reply 404 ''Not Found'' (InvalidJson ''Not Found''))
          ''list files'' ''gho_a'' None sampleStore)
     = Inl (Error ''Unable to get command suggestion from GitHub Copilot. Please try again.'')"
proof -
  have a: "suggestionAttempt sampleParseDate 1700000000000 (FetchFailed ''offline'')
          (Reply 400 ''Bad Request'' (InvalidJson ''Bad Request''))
          ''list files'' ''gho_a'' None sampleStore
        = (Inl (Error ''Invalid request to Copilot. Please try a different prompt.''), sampleStore,
           [HttpPost completion_url ''Bearer tid=1''
                        \<lparr>intent = False, model = ''claude-3.5-sonnet'', temperature = 0,
                         top_p = 1, n_completions = 1, stream = False,
                         messages = composeMessages ''list files'' None\<rparr>])"
    by (simp add: suggestionAttempt_def sampleStore_hit ok_def completionFailure_def)
  have b: "suggestionAttempt sampleParseDate 1700000000000 (FetchFailed ''offline'')
          (Reply 404 ''Not Found'' (InvalidJson ''Not Found''))
          ''list files'' ''gho_a'' None sampleStore
        = (Inl (Error ''Unable to get a response from GitHub Copilot.''), sampleStore,
           [HttpPost completion_url ''Bearer tid=1''
                        \<lparr>intent = False, model = ''claude-3.5-sonnet'', temperature = 0,
                         top_p = 1, n_completions = 1, stream = False,
                         messages = composeMessages ''list files'' None\<rparr>])"
    by (simp add: suggestionAttempt_def sampleStore_hit ok_def completionFailure_def)
  show ?thesis
    unfolding getCommandSuggestion_def a b
    by (simp add: translate_invalid_request translate_no_response)
qed

section \<open>The session log\<close>

lemma sorted_le_last:
  "sorted (xs :: int list) \<Longrightarrow> x \<in> set xs \<Longrightarrow> x \<le> last xs"
  by (induction xs) auto

lemma timestamps_updateLast:
  "es \<noteq> [] \<Longrightarrow> timestamp e' = timestamp (last es)
     \<Longrightarrow> map timestamp (butlast es @ [e']) = map timestamp es"
  by (induction es) auto

lemma applyCall_ordered:
  assumes inv: "timestampsOrdered session"
      and clock: "sorted (lastUpdatedAt session # clockReadings c)"
  shows "timestampsOrdered (fst (applyCall c (session, dir)))
         \<and> lastUpdatedAt session \<le> lastUpdatedAt (fst (applyCall c (session, dir)))
         \<and> lastUpdatedAt (fst (applyCall c (session, dir))) \<in> set (lastUpdatedAt session # clockReadings c)"
proof (cases c)
  case (Append now1 now2 p cmd ex)
  have "\<forall>x \<in> set (map timestamp (entries session)). x \<le> now1"
  proof (cases "entries session = []")
    case True
    then show ?thesis by simp
  next
    case False
    have "\<forall>x \<in> set (map timestamp (entries session)). x \<le> last (map timestamp (entries session))"
      using inv by (simp add: timestampsOrdered_def sorted_le_last)
    moreover have "last (map timestamp (entries session)) \<le> now1"
      using inv False clock Append by (simp add: timestampsOrdered_def last_map)
    ultimately show ?thesis by fastforce
  qed
  then show ?thesis
    using inv clock Append
    by (simp add: addSessionEntry_def saveSession_def Let_def timestampsOrdered_def
                  sorted_append)
next
  case (UpdateLast now1 now2 cmd ex out)
  show ?thesis
  proof (cases "entries session = []")
    case True
    then show ?thesis
      using inv UpdateLast by (simp add: updateLastSessionEntry_def)
  next
    case False
    let ?l = "last (entries session)"
    let ?e1 = "case cmd of Some c \<Rightarrow> ?l\<lparr>command := Some c\<rparr> | None \<Rightarrow> ?l"
    let ?e2 = "?e1\<lparr>executed := Some ex\<rparr>"
    let ?e3 = "case out of Some txt \<Rightarrow> ?e2\<lparr>output_text := Some txt\<rparr> | None \<Rightarrow> ?e2"
    have t: "timestamp ?e3 = timestamp ?l"
      by (simp split: option.split)
    have m: "map timestamp (butlast (entries session) @ [?e3]) = map timestamp (entries session)"
      using False t by (rule timestamps_updateLast)
    have s: "fst (applyCall c (session, dir))
               = session\<lparr>entries := butlast (entries session) @ [?e3], lastUpdatedAt := now2\<rparr>"
      using False UpdateLast
      by (simp add: updateLastSessionEntry_def saveSession_def Let_def)
    show ?thesis
      unfolding s using inv clock UpdateLast False m t
      by (simp add: timestampsOrdered_def del: map_append)
  qed
qed

lemma runCalls_ordered:
  "timestampsOrdered session \<Longrightarrow>
   sorted (lastUpdatedAt session # concat (map clockReadings calls)) \<Longrightarrow>
   timestampsOrdered (fst (runCalls calls (session, dir)))"
proof (induction calls arbitrary: session dir)
  case Nil
  then show ?case by simp
next
  case (Cons c cs)
  obtain session' dir' where st: "applyCall c (session, dir) = (session', dir')"
    by (cases "applyCall c (session, dir)") auto
  have clock: "sorted (lastUpdatedAt session # clockReadings c @ concat (map clockReadings cs))"
    using Cons.prems(2) by simp
  then have head: "sorted (lastUpdatedAt session # clockReadings c)"
    by (simp add: sorted_append)
  from applyCall_ordered [OF Cons.prems(1) head, of dir] st
  have inv': "timestampsOrdered session'"
    and mem: "lastUpdatedAt session' \<in> set (lastUpdatedAt session # clockReadings c)"
    by simp_all
  have "sorted (lastUpdatedAt session' # concat (map clockReadings cs))"
    using clock mem by (auto simp: sorted_append)
  from Cons.IH [OF inv' this, of dir'] show ?case
    by (simp add: st)
qed

text \<open>
  Under a clock that never steps back, updating the last entry moves \<open>lastUpdatedAt\<close>
  past that entry's timestamp; and when the clock does step back between two appends,
  the timestamps decrease.
\<close>

theorem session_lastUpdatedAt_differs:
  "lastUpdatedAt (fst (runCalls [Append 1000 1000 ''list files'' None False,
                                 UpdateLast 2000 2000 (Some ''ls -la'') True (Some ''file1'')]
                         (newSession, noSessions))) = 2000
   \<and> timestamp (last (entries (fst (runCalls [Append 1000 1000 ''list files'' None False,
                                 UpdateLast 2000 2000 (Some ''ls -la'') True (Some ''file1'')]
                         (newSession, noSessions))))) = 1000
   \<and> map timestamp (entries (fst (runCalls [Append 5000 5000 ''list files'' None False,
                                             Append 3000 3000 ''show date'' None False]
                         (newSession, noSessions)))) = [5000, 3000]"
  by (simp add: addSessionEntry_def updateLastSessionEntry_def saveSession_def Let_def
                newSession_def)

text \<open>
  C4, as it holds on the code. Started on a session whose timestamps are non-decreasing
  and not later than its \<open>lastUpdatedAt\<close> (a new session has no entries), and given
  clock readings that never decrease from that \<open>lastUpdatedAt\<close> on, any sequence of \<open>addSessionEntry\<close> and
  \<open>updateLastSessionEntry\<close> calls leaves the timestamps non-decreasing and the last
  entry's timestamp not later than \<open>lastUpdatedAt\<close>. An appended entry carries the
  first clock reading of its call; an update of an existing last entry leaves that
  entry's timestamp as it was and sets \<open>lastUpdatedAt\<close> to the reading taken on saving.
\<close>

theorem session_calls_keep_timestamps_ordered:
  assumes ordered: "sorted (map timestamp (entries session))"
      and bounded: "entries session = [] \<or> timestamp (last (entries session)) \<le> lastUpdatedAt session"
      and clock: "sorted (lastUpdatedAt session # concat (map clockReadings calls))"
  shows "sorted (map timestamp (entries (fst (runCalls calls (session, dir)))))
         \<and> (entries (fst (runCalls calls (session, dir))) = []
              \<or> timestamp (last (entries (fst (runCalls calls (session, dir)))))
                   \<le> lastUpdatedAt (fst (runCalls calls (session, dir))))
         \<and> timestamp (last (entries (fst (addSessionEntry now1 now2 p cmd ex session dir)))) = now1
         \<and> (entries session = []
              \<or> lastUpdatedAt (fst (updateLastSessionEntry now1 now2 cmd ex out session dir)) = now2
                 \<and> timestamp (last (entries (fst (updateLastSessionEntry now1 now2 cmd ex out
                                                       session dir))))
                     = timestamp (last (entries session)))"
proof -
  have "timestampsOrdered session"
    using ordered bounded by (simp add: timestampsOrdered_def)
  from runCalls_ordered [OF this clock, of dir]
  have run: "sorted (map timestamp (entries (fst (runCalls calls (session, dir)))))
         \<and> (entries (fst (runCalls calls (session, dir))) = []
              \<or> timestamp (last (entries (fst (runCalls calls (session, dir)))))
                   \<le> lastUpdatedAt (fst (runCalls calls (session, dir))))"
    by (simp add: timestampsOrdered_def)
  have add: "timestamp (last (entries (fst (addSessionEntry now1 now2 p cmd ex session dir)))) = now1"
    by (simp add: addSessionEntry_def saveSession_def Let_def)
  have upd: "lastUpdatedAt (fst (updateLastSessionEntry now1 now2 cmd ex out session dir)) = now2
                 \<and> timestamp (last (entries (fst (updateLastSessionEntry now1 now2 cmd ex out
                                                       session dir))))
                     = timestamp (last (entries session))"
    if "entries session \<noteq> []"
    using that
    by (simp add: updateLastSessionEntry_def saveSession_def Let_def split: option.split)
  show ?thesis using run add upd by blast
qed

theorem session_calls_keep_timestamps_ordered_witness:
  "sorted (map timestamp (entries (fst (runCalls
        [Append 1000 1000 ''list files'' None False,
         UpdateLast 2000 2000 (Some ''ls -la'') True (Some ''file1'')]
        (newSession, noSessions)))))
   \<and> timestamp (last (entries (fst (runCalls
        [Append 1000 1000 ''list files'' None False,
         UpdateLast 2000 2000 (Some ''ls -la'') True (Some ''file1'')]
        (newSession, noSessions)))))
       \<le> lastUpdatedAt (fst (runCalls
        [Append 1000 1000 ''list files'' None False,
         UpdateLast 2000 2000 (Some ''ls -la'') True (Some ''file1'')]
        (newSession, noSessions)))"
proof -
  let ?calls = "[Append 1000 1000 ''list files'' None False,
                 UpdateLast 2000 2000 (Some ''ls -la'') True (Some ''file1'')]"
  have a: "sorted (map timestamp (entries newSession))"
    by (simp add: newSession_def)
  have b: "entries newSession = []
           \<or> timestamp (last (entries newSession)) \<le> lastUpdatedAt newSession"
    by (simp add: newSession_def)
  have c: "sorted (lastUpdatedAt newSession # concat (map clockReadings ?calls))"
    by (simp add: newSession_def)
  have d: "entries (fst (runCalls ?calls (newSession, noSessions))) \<noteq> []"
    by (simp add: addSessionEntry_def updateLastSessionEntry_def saveSession_def Let_def
                  newSession_def)
  from session_calls_keep_timestamps_ordered [OF a b c, of noSessions] d
  show ?thesis by blast
qed

section \<open>The session context\<close>

lemma foldl_append_blocks:
  "foldl (\<lambda>context (index, entry). context @ f index entry) acc xs
     = acc @ concat (map (\<lambda>(index, entry). f index entry) xs)"
  by (induction xs arbitrary: acc) (auto simp: case_prod_beta)

lemma getSessionContext_blocks:
  "getSessionContext limit session
     = ''Previous commands:\<newline>\<newline>''
       @ concat (map (\<lambda>(index, entry). renderEntry index entry)
                   (zip [0 ..< length (recentEntries limit session)] (recentEntries limit session)))"
  unfolding getSessionContext_def by (rule foldl_append_blocks)

lemma recentEntries_zero_limit: "recentEntries 0 session = entries session"
  by (simp add: recentEntries_def slice_from_def)

lemma recentEntries_positive_limit:
  "0 < limit \<Longrightarrow>
     recentEntries limit session = drop (length (entries session) - nat limit) (entries session)
     \<and> length (recentEntries limit session) = min (nat limit) (length (entries session))"
  by (auto simp: recentEntries_def slice_from_def Let_def max_def nat_diff_distrib' )

lemma limitOutput_bound:
  "limitOutput txt = (if length txt > 500 then take 500 txt @ ''... [output truncated]'' else txt)"
  by (simp add: limitOutput_def)

text \<open>
  C5. With limit 0 the context renders every entry of the session, not
  \<open>min(0, n) = 0\<close> of them: \<open>slice(-0)\<close> is \<open>slice(0)\<close>.
\<close>

theorem getSessionContext_limit_zero_renders_all:
  "recentEntries 0 sampleSession = entries sampleSession
   \<and> length (recentEntries 0 sampleSession) = 2
   \<and> getSessionContext 0 sampleSession
       = ''Previous commands:\<newline>\<newline>[1] User: list files\<newline>    Command: ls -la\<newline>    Executed: Yes\<newline>    Output: file1\<newline>      file2\<newline>\<newline>[2] User: show date\<newline>\<newline>''"
proof -
  have r: "recentEntries 0 sampleSession = entries sampleSession"
    by (rule recentEntries_zero_limit)
  have u: "[0 ..< 2] = [0, 1::nat]" by (simp add: upt_rec)
  have d: "string_of_nat 1 = ''1''" "string_of_nat 2 = ''2''"
    by (simp_all add: digit_char_def)
  show ?thesis
    unfolding getSessionContext_blocks r
    by (simp add: sampleSession_def u renderEntry_def renderOutput_def limitOutput_def
                  reindent_def d digit_char_def)
qed

text \<open>
  C10. The context always starts with the header \<open>Previous commands:\<close> and is never
  empty. For a session without entries it is the header alone, and passing that on
  puts a system message in front of the user message.
\<close>

theorem getSessionContext_never_empty:
  "take 18 (getSessionContext limit session) = ''Previous commands:''
   \<and> getSessionContext limit session \<noteq> []
   \<and> getSessionContext limit (session\<lparr>entries := []\<rparr>) = ''Previous commands:\<newline>\<newline>''
   \<and> map role (composeMessages p (Some (getSessionContext limit (session\<lparr>entries := []\<rparr>))))
       = [System, User]"
proof -
  have e: "recentEntries limit (session\<lparr>entries := []\<rparr>) = []"
    by (simp add: recentEntries_def slice_from_def)
  show ?thesis
    by (simp add: getSessionContext_blocks e composeMessages_def)
qed

section \<open>Polling for the identity token\<close>

lemma failedRound_waits:
  "\<forall>u. pollAttempt reply \<noteq> Returned u \<Longrightarrow>
     hd (failedRound dc pi reply) = Requested dc \<and> last (failedRound dc pi reply) = Waited pi"
  by (cases "pollAttempt reply") (simp_all add: failedRound_def)

lemma pollAttempt_pending:
  "ok status \<Longrightarrow> pollAttempt (Reply status statusText (Json \<lparr>access_token = None\<rparr>)) = NoToken"
  by (simp add: pollAttempt_def)

lemma pollLoop_reaches:
  "pollAttempt (replies (k + j)) = Returned t \<Longrightarrow>
   (\<And>i. i < j \<Longrightarrow> \<forall>u. pollAttempt (replies (k + i)) \<noteq> Returned u) \<Longrightarrow>
   pollLoop dc pi replies k tr
     = Some (t, tr @ concat (map (\<lambda>i. failedRound dc pi (replies i)) [k ..< k + j]) @ [Requested dc])"
proof (induction j arbitrary: k tr)
  case 0
  then show ?case by (subst pollLoop.simps) simp
next
  case (Suc j)
  have nk: "\<forall>u. pollAttempt (replies k) \<noteq> Returned u"
    using Suc.prems(2) [of 0] by simp
  have step: "pollLoop dc pi replies k tr
                = pollLoop dc pi replies (Suc k) (tr @ failedRound dc pi (replies k))"
    using nk by (subst pollLoop.simps) (simp add: failedRound_def split: attempt.split)
  have rest: "pollLoop dc pi replies (Suc k) (tr @ failedRound dc pi (replies k))
                = Some (t, (tr @ failedRound dc pi (replies k))
                            @ concat (map (\<lambda>i. failedRound dc pi (replies i)) [Suc k ..< Suc k + j])
                            @ [Requested dc])"
  proof (rule Suc.IH)
    show "pollAttempt (replies (Suc k + j)) = Returned t" using Suc.prems(1) by simp
    fix i assume "i < j"
    then show "\<forall>u. pollAttempt (replies (Suc k + i)) \<noteq> Returned u"
      using Suc.prems(2) [of "Suc i"] by simp
  qed
  have "[k ..< k + Suc j] = k # [Suc k ..< Suc k + j]"
    by (simp add: upt_rec)
  then show ?case
    unfolding step rest by simp
qed

lemma pollLoop_returns_only_token:
  assumes returned: "pollLoop dc pi replies k tr = Some y"
  shows "\<exists>j. pollAttempt (replies (k + j)) = Returned (fst y)
             \<and> (\<forall>i<j. \<forall>u. pollAttempt (replies (k + i)) \<noteq> Returned u)"
proof (rule pollLoop.raw_induct
         [where P = "\<lambda>dc pi replies k tr y.
                       \<exists>j. pollAttempt (replies (k + j)) = Returned (fst y)
                           \<and> (\<forall>i<j. \<forall>u. pollAttempt (replies (k + i)) \<noteq> Returned u)",
          OF _ returned])
  fix loop :: "string \<Rightarrow> int \<Rightarrow> (nat \<Rightarrow> AccessTokenResponse http_reply) \<Rightarrow> nat
                 \<Rightarrow> poll_event list \<Rightarrow> (string \<times> poll_event list) option"
    and dc pi replies k tr y
  assume IH: "\<And>dc pi replies k tr y. loop dc pi replies k tr = Some y \<Longrightarrow>
                \<exists>j. pollAttempt (replies (k + j)) = Returned (fst y)
                    \<and> (\<forall>i<j. \<forall>u. pollAttempt (replies (k + i)) \<noteq> Returned u)"
    and body: "(case pollAttempt (replies k) of
                  Returned t \<Rightarrow> Some (t, tr @ [Requested dc])
                | Caught msg \<Rightarrow> loop dc pi replies (Suc k)
                                   (tr @ [Requested dc, Logged msg, Waited pi])
                | NoToken \<Rightarrow> loop dc pi replies (Suc k) (tr @ [Requested dc, Waited pi]))
               = Some y"
  have later: "\<exists>j. pollAttempt (replies (k + j)) = Returned (fst y)
                   \<and> (\<forall>i<j. \<forall>u. pollAttempt (replies (k + i)) \<noteq> Returned u)"
    if again: "loop dc pi replies (Suc k) tr' = Some y"
      and failed: "\<forall>u. pollAttempt (replies k) \<noteq> Returned u" for tr'
  proof -
    from IH [OF again] obtain j where
      j: "pollAttempt (replies (Suc k + j)) = Returned (fst y)"
         "\<forall>i<j. \<forall>u. pollAttempt (replies (Suc k + i)) \<noteq> Returned u"
      by blast
    have "\<forall>i<Suc j. \<forall>u. pollAttempt (replies (k + i)) \<noteq> Returned u"
    proof (intro allI impI)
      fix i u assume "i < Suc j"
      then show "pollAttempt (replies (k + i)) \<noteq> Returned u"
        using failed j(2) by (cases i) auto
    qed
    moreover have "pollAttempt (replies (k + Suc j)) = Returned (fst y)"
      using j(1) by simp
    ultimately show ?thesis by blast
  qed
  show "\<exists>j. pollAttempt (replies (k + j)) = Returned (fst y)
            \<and> (\<forall>i<j. \<forall>u. pollAttempt (replies (k + i)) \<noteq> Returned u)"
  proof (cases "pollAttempt (replies k)")
    case (Returned t)
    with body have "fst y = t" by auto
    with Returned have "pollAttempt (replies (k + 0)) = Returned (fst y)" by simp
    then show ?thesis by blast
  next
    case (Caught msg)
    with body show ?thesis by (intro later) simp_all
  next
    case NoToken
    with body show ?thesis by (intro later) simp_all
  qed
qed

lemma pollAttempt_Returned:
  "pollAttempt reply = Returned t
     \<longleftrightarrow> (\<exists>status statusText. reply = Reply status statusText (Json \<lparr>access_token = Some t\<rparr>)
                                \<and> ok status \<and> t \<noteq> [])"
  by (cases reply)
     (auto simp: pollAttempt_def split: json_body.splits option.splits if_splits)

text \<open>
  C6. \<open>pollForToken\<close> returns only the access token of the first reply that is a 2xx
  response carrying a non-empty \<open>access_token\<close>, after one call per reply up to it.
  Every reply before it, whatever went wrong, costs a call and then a wait of
  \<open>interval * 1000\<close> milliseconds. If some reply succeeds the loop returns, however
  late; if none does it never returns. Three pending replies and then a token: four
  calls, three waits in between, and the token of the fourth reply.
\<close>

theorem pollForToken_returns_first_token:
  "(pollForToken dc interval replies = Some (t, tr) \<longrightarrow>
      (\<exists>j status statusText.
          replies j = Reply status statusText (Json \<lparr>access_token = Some t\<rparr>)
          \<and> ok status \<and> t \<noteq> []
          \<and> (\<forall>i<j. \<forall>u. pollAttempt (replies i) \<noteq> Returned u)
          \<and> tr = concat (map (\<lambda>i. failedRound dc (interval * 1000) (replies i)) [0 ..< j])
                 @ [Requested dc]))
   \<and> (pollAttempt (replies j) = Returned t
        \<and> (\<forall>i<j. \<forall>u. pollAttempt (replies i) \<noteq> Returned u) \<longrightarrow>
      pollForToken dc interval replies
        = Some (t, concat (map (\<lambda>i. failedRound dc (interval * 1000) (replies i)) [0 ..< j])
                   @ [Requested dc]))
   \<and> ((\<forall>i u. pollAttempt (replies i) \<noteq> Returned u) \<longrightarrow>
        pollForToken dc interval replies = None)
   \<and> ((\<forall>u. pollAttempt reply \<noteq> Returned u) \<longrightarrow>
        hd (failedRound dc (interval * 1000) reply) = Requested dc
        \<and> last (failedRound dc (interval * 1000) reply) = Waited (interval * 1000))
   \<and> (ok s0 \<and> ok s1 \<and> ok s2 \<and> ok s3 \<and> t \<noteq> []
        \<and> replies 0 = Reply s0 x0 (Json \<lparr>access_token = None\<rparr>)
        \<and> replies 1 = Reply s1 x1 (Json \<lparr>access_token = None\<rparr>)
        \<and> replies 2 = Reply s2 x2 (Json \<lparr>access_token = None\<rparr>)
        \<and> replies 3 = Reply s3 x3 (Json \<lparr>access_token = Some t\<rparr>) \<longrightarrow>
      pollForToken dc interval replies
        = Some (t, [Requested dc, Waited (interval * 1000),
                    Requested dc, Waited (interval * 1000),
                    Requested dc, Waited (interval * 1000),
                    Requested dc]))"
proof -
  let ?pi = "interval * 1000"
  let ?rounds = "\<lambda>j. concat (map (\<lambda>i. failedRound dc ?pi (replies i)) [0 ..< j]) @ [Requested dc]"
  have reach: "pollForToken dc interval replies = Some (t, ?rounds j)"
    if "pollAttempt (replies j) = Returned t"
      and "\<forall>i<j. \<forall>u. pollAttempt (replies i) \<noteq> Returned u" for j t
    using that pollLoop_reaches [of replies 0 j t dc ?pi "[]"]
    by (simp add: pollForToken_def)
  have only: "\<exists>j. pollAttempt (replies j) = Returned t
                  \<and> (\<forall>i<j. \<forall>u. pollAttempt (replies i) \<noteq> Returned u)"
    if "pollForToken dc interval replies = Some (t, tr)" for t tr
    using that pollLoop_returns_only_token [of dc ?pi replies 0 "[]" "(t, tr)"]
    by (simp add: pollForToken_def)
  have part1: "\<exists>j status statusText.
          replies j = Reply status statusText (Json \<lparr>access_token = Some t\<rparr>)
          \<and> ok status \<and> t \<noteq> []
          \<and> (\<forall>i<j. \<forall>u. pollAttempt (replies i) \<noteq> Returned u)
          \<and> tr = ?rounds j"
    if ret: "pollForToken dc interval replies = Some (t, tr)"
  proof -
    from only [OF ret] obtain j where
      j: "pollAttempt (replies j) = Returned t"
         "\<forall>i<j. \<forall>u. pollAttempt (replies i) \<noteq> Returned u"
      by blast
    from reach [OF j] ret have "tr = ?rounds j" by simp
    moreover from j(1) obtain status statusText where
      "replies j = Reply status statusText (Json \<lparr>access_token = Some t\<rparr>)" "ok status" "t \<noteq> []"
      by (auto simp: pollAttempt_Returned)
    ultimately show ?thesis using j(2) by blast
  qed
  have part3: "pollForToken dc interval replies = None"
    if never: "\<forall>i u. pollAttempt (replies i) \<noteq> Returned u"
  proof (cases "pollForToken dc interval replies")
    case None
    then show ?thesis .
  next
    case (Some y)
    then have "pollForToken dc interval replies = Some (fst y, snd y)" by simp
    from only [OF this] never show ?thesis by blast
  qed
  have part5: "pollForToken dc interval replies
        = Some (t, [Requested dc, Waited ?pi, Requested dc, Waited ?pi,
                    Requested dc, Waited ?pi, Requested dc])"
    if sc: "ok s0 \<and> ok s1 \<and> ok s2 \<and> ok s3 \<and> t \<noteq> []
        \<and> replies 0 = Reply s0 x0 (Json \<lparr>access_token = None\<rparr>)
        \<and> replies 1 = Reply s1 x1 (Json \<lparr>access_token = None\<rparr>)
        \<and> replies 2 = Reply s2 x2 (Json \<lparr>access_token = None\<rparr>)
        \<and> replies 3 = Reply s3 x3 (Json \<lparr>access_token = Some t\<rparr>)"
  proof -
    have p: "pollAttempt (replies 0) = NoToken" "pollAttempt (replies 1) = NoToken"
            "pollAttempt (replies 2) = NoToken"
      using sc by (simp_all add: pollAttempt_pending)
    have r: "pollAttempt (replies 3) = Returned t"
      using sc by (simp add: pollAttempt_def)
    have "\<forall>i<3. \<forall>u. pollAttempt (replies i) \<noteq> Returned u"
    proof (intro allI impI)
      fix i :: nat and u assume "i < 3"
      then have "i = 0 \<or> i = 1 \<or> i = 2" by arith
      then show "pollAttempt (replies i) \<noteq> Returned u" using p by auto
    qed
    from reach [OF r this] have "pollForToken dc interval replies = Some (t, ?rounds 3)" .
    moreover have "[0 ..< 3] = [0, 1, 2::nat]" by (simp add: upt_rec)
    ultimately show ?thesis using p by (simp add: failedRound_def)
  qed
  show ?thesis
    using part1 reach part3 part5 failedRound_waits [of reply dc ?pi] by blast
qed

theorem pollForToken_returns_first_token_witness:
  "pollForToken ''dev-1'' 5 sampleReplies
     = Some (''gho_fourth'',
             [Requested ''dev-1'', Waited 5000, Requested ''dev-1'', Waited 5000,
              Requested ''dev-1'', Waited 5000, Requested ''dev-1''])"
proof -
  have "ok 200 \<and> ok 200 \<and> ok 200 \<and> ok 200 \<and> ''gho_fourth'' \<noteq> []
        \<and> sampleReplies 0 = Reply 200 ''OK'' (Json \<lparr>access_token = None\<rparr>)
        \<and> sampleReplies 1 = Reply 200 ''OK'' (Json \<lparr>access_token = None\<rparr>)
        \<and> sampleReplies 2 = Reply 200 ''OK'' (Json \<lparr>access_token = None\<rparr>)
        \<and> sampleReplies 3 = Reply 200 ''OK'' (Json \<lparr>access_token = Some ''gho_fourth''\<rparr>)"
    by (simp add: ok_def sampleReplies_def)
  with pollForToken_returns_first_token
         [where replies = sampleReplies and t = "''gho_fourth''" and dc = "''dev-1''"
            and interval = 5 and ?s0.0 = 200 and ?s1.0 = 200 and ?s2.0 = 200 and ?s3.0 = 200
            and ?x0.0 = "''OK''" and ?x1.0 = "''OK''" and ?x2.0 = "''OK''" and ?x3.0 = "''OK''"]
  show ?thesis by simp
qed

end
